theory Spec2Isabelle
  imports Complex_Main
begin

section \<open>Python values\<close>

text \<open>
  The strategy SDK (\<^verbatim>\<open>sdk/__init__.py\<close>) and the market-maker example
  (\<^verbatim>\<open>examples/market_maker.py\<close>) are embedded function by function.
  Numbers are Python ints and floats; they are modelled as exact rationals, so NaN,
  infinities and binary rounding are outside the model. A Python value that may be
  \<^verbatim>\<open>None\<close> is an \<open>option\<close>. Exceptions are values of type \<open>error\<close>, and a
  function that may raise returns \<open>error + 'a\<close>. \<^verbatim>\<open>log\<close> only prints a line and
  returns nothing, so it leaves no trace in the model.
\<close>

datatype error = TypeError | AttributeError | ValueError

text \<open>
  One key of a dict-shaped message: the key is absent, present holding \<^verbatim>\<open>None\<close>, or
  present holding a value of the schema's type.
\<close>

datatype 'a entry = NoKey | NoneVal | Val 'a

text \<open>\<^verbatim>\<open>d.get(key, default)\<close>; \<^verbatim>\<open>d.get(key)\<close> is the case \<open>default = None\<close>.\<close>

fun dict_get :: "'a entry \<Rightarrow> 'a option \<Rightarrow> 'a option" where
  "dict_get NoKey d = d"
| "dict_get NoneVal d = None"
| "dict_get (Val v) d = Some v"

text \<open>The entry a dict literal \<^verbatim>\<open>{key: value}\<close> creates for a value that may be None.\<close>

fun stored :: "'a option \<Rightarrow> 'a entry" where
  "stored None = NoneVal"
| "stored (Some v) = Val v"

text \<open>
  Arithmetic and ordering comparisons need numbers on both sides: with \<^verbatim>\<open>None\<close> as an
  operand Python raises TypeError.
\<close>

fun num :: "rat option \<Rightarrow> error + rat" where
  "num None = Inl TypeError"
| "num (Some x) = Inr x"

definition bind_err :: "error + 'a \<Rightarrow> ('a \<Rightarrow> error + 'b) \<Rightarrow> error + 'b" where
  "bind_err m f = (case m of Inl e \<Rightarrow> Inl e | Inr x \<Rightarrow> f x)"

text \<open>
  \<^verbatim>\<open>round(x, ndigits)\<close>: to the nearest multiple of \<open>10 ^ -ndigits\<close>, a tie going to the
  even neighbour.
\<close>

definition round_half_even :: "rat \<Rightarrow> int" where
  "round_half_even x =
     (let f = \<lfloor>x\<rfloor>; d = x - of_int f
      in if d < 1 / 2 then f
         else if 1 / 2 < d then f + 1
         else if even f then f else f + 1)"

definition py_round :: "rat \<Rightarrow> nat \<Rightarrow> rat" where
  "py_round x ndigits = of_int (round_half_even (x * 10 ^ ndigits)) / 10 ^ ndigits"

section \<open>The SDK: enumerations and dataclasses\<close>

datatype OrderSide = BUY | SELL

datatype OrderType = MARKET | LIMIT | GTC | GTD | FOK | FAK

text \<open>
  \<^verbatim>\<open>OrderSide(side)\<close> and \<^verbatim>\<open>OrderType(order_type)\<close>: the member whose value is the
  string, ValueError when there is none.
\<close>

definition OrderSide_of :: "string \<Rightarrow> error + OrderSide" where
  "OrderSide_of s =
     (if s = ''BUY'' then Inr BUY
      else if s = ''SELL'' then Inr SELL
      else Inl ValueError)"

definition OrderType_of :: "string \<Rightarrow> error + OrderType" where
  "OrderType_of s =
     (if s = ''MARKET'' then Inr MARKET
      else if s = ''LIMIT'' then Inr LIMIT
      else if s = ''GTC'' then Inr GTC
      else if s = ''GTD'' then Inr GTD
      else if s = ''FOK'' then Inr FOK
      else if s = ''FAK'' then Inr FAK
      else Inl ValueError)"

record Position =
  pos_market_id :: string
  pos_token_id :: string
  pos_size :: rat
  pos_avg_entry_price :: rat
  pos_current_price :: "rat option"
  pos_realized_pnl :: rat
  pos_unrealized_pnl :: rat

record Order =
  ord_market_id :: string
  ord_token_id :: string
  ord_side :: OrderSide
  ord_type :: OrderType
  ord_size :: rat
  ord_price :: "rat option"

section \<open>Dict-shaped messages\<close>

text \<open>
  The strategy hooks receive and return plain dicts and read them with \<^verbatim>\<open>.get\<close>.
  Each dict is a record of entries, one per key of its schema.
\<close>

record order_dict =
  od_market_id :: "string entry"
  od_token_id :: "string entry"
  od_side :: "string entry"
  od_type :: "string entry"
  od_size :: "rat entry"
  od_price :: "rat entry"

record position_dict =
  pd_market_id :: "string entry"
  pd_token_id :: "string entry"
  pd_size :: "rat entry"
  pd_avg_entry_price :: "rat entry"
  pd_current_price :: "rat entry"
  pd_realized_pnl :: "rat entry"
  pd_unrealized_pnl :: "rat entry"

record market_dict =
  md_market_id :: "string entry"
  md_token_id :: "string entry"
  md_bid :: "rat entry"
  md_ask :: "rat entry"
  md_midpoint :: "rat entry"
  md_spread :: "rat entry"
  md_volume :: "rat entry"
  md_last_price :: "rat entry"

text \<open>
  An element of a context's \<^verbatim>\<open>positions\<close> list. \<^verbatim>\<open>get_position\<close> reads the
  attribute \<^verbatim>\<open>pos.market_id\<close>, the strategy then reads \<^verbatim>\<open>position.get('size', 0)\<close>.
  The SDK's dataclass has the attribute and no \<^verbatim>\<open>get\<close>; a plain dict has \<^verbatim>\<open>get\<close>
  and no attribute; a dict that also exposes its keys as attributes has both.
\<close>

datatype position_val =
  PositionObj Position
| PositionDict position_dict
| PositionAttrDict position_dict

record parameters_dict =
  prm_market_ids :: "string list entry"

record context_dict =
  cd_mode :: "string entry"
  cd_positions :: "position_val list entry"
  cd_balance :: "rat entry"
  cd_market_data :: "(string \<Rightarrow> market_dict option) entry"
  cd_parameters :: "parameters_dict entry"

record config_dict =
  cfg_spread_percent :: "rat entry"
  cfg_order_size :: "rat entry"
  cfg_max_position :: "rat entry"

text \<open>Truthiness of a dict: \<^verbatim>\<open>not d\<close> holds exactly for the empty dict.\<close>

definition has_key :: "'a entry \<Rightarrow> bool" where
  "has_key e = (case e of NoKey \<Rightarrow> False | NoneVal \<Rightarrow> True | Val v \<Rightarrow> True)"

definition position_dict_nonempty :: "position_dict \<Rightarrow> bool" where
  "position_dict_nonempty d =
     (has_key (pd_market_id d) \<or> has_key (pd_token_id d) \<or> has_key (pd_size d)
      \<or> has_key (pd_avg_entry_price d) \<or> has_key (pd_current_price d)
      \<or> has_key (pd_realized_pnl d) \<or> has_key (pd_unrealized_pnl d))"

definition market_dict_nonempty :: "market_dict \<Rightarrow> bool" where
  "market_dict_nonempty d =
     (has_key (md_market_id d) \<or> has_key (md_token_id d) \<or> has_key (md_bid d)
      \<or> has_key (md_ask d) \<or> has_key (md_midpoint d) \<or> has_key (md_spread d)
      \<or> has_key (md_volume d) \<or> has_key (md_last_price d))"

section \<open>The SDK: get_position\<close>

text \<open>The attribute read \<^verbatim>\<open>pos.market_id\<close>.\<close>

fun attr_market_id :: "position_val \<Rightarrow> error + string option" where
  "attr_market_id (PositionObj p) = Inr (Some (pos_market_id p))"
| "attr_market_id (PositionDict d) = Inl AttributeError"
| "attr_market_id (PositionAttrDict d) =
     (case pd_market_id d of
        NoKey \<Rightarrow> Inl AttributeError
      | NoneVal \<Rightarrow> Inr None
      | Val m \<Rightarrow> Inr (Some m))"

text \<open>
  The loop of \<^verbatim>\<open>get_position\<close>: the first position whose \<^verbatim>\<open>market_id\<close> equals the
  one asked for, \<^verbatim>\<open>None\<close> when the list is exhausted.
\<close>

fun find_position :: "position_val list \<Rightarrow> string option \<Rightarrow> error + position_val option" where
  "find_position [] market_id = Inr None"
| "find_position (pos # rest) market_id =
     (case attr_market_id pos of
        Inl e \<Rightarrow> Inl e
      | Inr m \<Rightarrow> if m = market_id then Inr (Some pos) else find_position rest market_id)"

text \<open>Iterating over \<^verbatim>\<open>None\<close> raises TypeError.\<close>

definition get_position ::
  "position_val list option \<Rightarrow> string option \<Rightarrow> error + position_val option" where
  "get_position positions market_id =
     (case positions of
        None \<Rightarrow> Inl TypeError
      | Some ps \<Rightarrow> find_position ps market_id)"

section \<open>The SDK: Trading\<close>

text \<open>
  The class attribute \<^verbatim>\<open>Trading._pending_orders\<close> is the state; every class method
  takes it and the ones that change it return the new list. \<^verbatim>\<open>place_order\<close> builds the
  \<^verbatim>\<open>Order\<close> first, so a ValueError leaves the list as it was.
\<close>

record place_result =
  res_queued :: bool
  res_order :: order_dict

definition place_order ::
  "Order list \<Rightarrow> string \<Rightarrow> string \<Rightarrow> string \<Rightarrow> string \<Rightarrow> rat \<Rightarrow> rat option
     \<Rightarrow> (error + place_result) \<times> Order list" where
  "place_order pending market_id token_id side order_type sz price =
     (case OrderSide_of side of
        Inl e \<Rightarrow> (Inl e, pending)
      | Inr sd \<Rightarrow>
          (case OrderType_of order_type of
             Inl e \<Rightarrow> (Inl e, pending)
           | Inr ty \<Rightarrow>
               (Inr \<lparr>res_queued = True,
                     res_order = \<lparr>od_market_id = Val market_id, od_token_id = NoKey,
                                  od_side = Val side, od_type = Val order_type,
                                  od_size = Val sz, od_price = stored price\<rparr>\<rparr>,
                pending @ [\<lparr>ord_market_id = market_id, ord_token_id = token_id,
                            ord_side = sd, ord_type = ty, ord_size = sz,
                            ord_price = price\<rparr>])))"

definition get_pending_orders :: "Order list \<Rightarrow> Order list" where
  "get_pending_orders pending = pending"

definition clear_pending_orders :: "Order list \<Rightarrow> Order list" where
  "clear_pending_orders pending = []"

text \<open>
  \<^verbatim>\<open>buy\<close> and \<^verbatim>\<open>sell\<close>: the last argument is \<open>None\<close> when the caller leaves
  \<^verbatim>\<open>order_type\<close> out, and the default of the signature is used.
\<close>

definition buy ::
  "Order list \<Rightarrow> string \<Rightarrow> string \<Rightarrow> rat \<Rightarrow> rat option \<Rightarrow> string option
     \<Rightarrow> (error + place_result) \<times> Order list" where
  "buy pending market_id token_id sz price order_type =
     place_order pending market_id token_id ''BUY''
       (case order_type of None \<Rightarrow> ''LIMIT'' | Some t \<Rightarrow> t) sz price"

definition sell ::
  "Order list \<Rightarrow> string \<Rightarrow> string \<Rightarrow> rat \<Rightarrow> rat option \<Rightarrow> string option
     \<Rightarrow> (error + place_result) \<times> Order list" where
  "sell pending market_id token_id sz price order_type =
     place_order pending market_id token_id ''SELL''
       (case order_type of None \<Rightarrow> ''MARKET'' | Some t \<Rightarrow> t) sz price"

section \<open>The market maker\<close>

text \<open>
  The module's globals. \<^verbatim>\<open>initialize\<close> may store whatever the config holds, also
  \<^verbatim>\<open>None\<close>. \<^verbatim>\<open>_last_prices\<close> is keyed by what \<^verbatim>\<open>market_state.get('market_id')\<close>
  returned.
\<close>

record market_maker =
  SPREAD_PERCENT :: "rat option"
  ORDER_SIZE :: "rat option"
  MAX_POSITION :: "rat option"
  last_prices :: "string option \<Rightarrow> rat option option"

definition REFRESH_THRESHOLD :: rat where
  "REFRESH_THRESHOLD = 1 / 100"

text \<open>The values the module is loaded with.\<close>

definition module_defaults :: market_maker where
  "module_defaults =
     \<lparr>SPREAD_PERCENT = Some (2 / 100), ORDER_SIZE = Some 10, MAX_POSITION = Some 100,
      last_prices = (\<lambda>k. None)\<rparr>"

definition initialize :: "market_maker \<Rightarrow> config_dict \<Rightarrow> market_maker" where
  "initialize s config =
     s\<lparr>SPREAD_PERCENT := dict_get (cfg_spread_percent config) (SPREAD_PERCENT s),
       ORDER_SIZE := dict_get (cfg_order_size config) (ORDER_SIZE s),
       MAX_POSITION := dict_get (cfg_max_position config) (MAX_POSITION s)\<rparr>"

text \<open>
  \<^verbatim>\<open>on_tick\<close>: the comparison with the last price only logs; the division is reached
  only for a last price that is neither \<^verbatim>\<open>None\<close> nor zero. On TypeError the cache
  is left as it was.
\<close>

definition on_tick :: "market_maker \<Rightarrow> market_dict \<Rightarrow> error + market_maker" where
  "on_tick s market_state =
     (let market_id = dict_get (md_market_id market_state) None;
          midpoint = dict_get (md_midpoint market_state) (Some (1 / 2));
          last_price = (case last_prices s market_id of None \<Rightarrow> None | Some v \<Rightarrow> v)
      in bind_err
           (case last_price of
              None \<Rightarrow> Inr False
            | Some lp \<Rightarrow>
                if lp = 0 then Inr False
                else bind_err (num midpoint)
                       (\<lambda>m. Inr (REFRESH_THRESHOLD < \<bar>m - lp\<bar> / lp)))
           (\<lambda>logged. Inr (s\<lparr>last_prices := (last_prices s)(market_id := Some midpoint)\<rparr>)))"

text \<open>\<^verbatim>\<open>position.get('size', 0) if position else 0\<close>.\<close>

fun size_of_position :: "position_val option \<Rightarrow> error + rat option" where
  "size_of_position None = Inr (Some 0)"
| "size_of_position (Some (PositionObj p)) = Inl AttributeError"
| "size_of_position (Some (PositionDict d)) =
     (if position_dict_nonempty d then Inr (dict_get (pd_size d) (Some 0)) else Inr (Some 0))"
| "size_of_position (Some (PositionAttrDict d)) =
     (if position_dict_nonempty d then Inr (dict_get (pd_size d) (Some 0)) else Inr (Some 0))"

text \<open>
  The first three statements of \<^verbatim>\<open>risk_check\<close>, which \<^verbatim>\<open>propose_orders\<close> repeats for
  each market: the size of the position held in a market.
\<close>

definition current_size :: "position_val list option \<Rightarrow> string option \<Rightarrow> error + rat option" where
  "current_size positions market_id =
     bind_err (get_position positions market_id) size_of_position"

definition risk_check :: "market_maker \<Rightarrow> order_dict \<Rightarrow> context_dict \<Rightarrow> error + bool" where
  "risk_check s order context =
     (let positions = dict_get (cd_positions context) (Some []);
          side = dict_get (od_side order) None;
          sz = dict_get (od_size order) (Some 0);
          price = dict_get (od_price order) (Some 0)
      in bind_err (current_size positions (dict_get (od_market_id order) None))
           (\<lambda>cur.
              bind_err
                (if side = Some ''BUY''
                 then bind_err (num cur) (\<lambda>c. bind_err (num sz) (\<lambda>z.
                        bind_err (num (MAX_POSITION s)) (\<lambda>m. Inr (m < c + z))))
                 else Inr False)
                (\<lambda>exceeds.
                   if exceeds then Inr False
                   else bind_err
                          (if side = Some ''SELL''
                           then bind_err (num sz) (\<lambda>z. bind_err (num cur) (\<lambda>c. Inr (c < z)))
                           else Inr False)
                          (\<lambda>oversold.
                             if oversold then Inr False
                             else bind_err (num price)
                                    (\<lambda>p. if p < 1 / 100 \<or> 99 / 100 < p then Inr False
                                          else Inr True)))))"

text \<open>
  The dict literal \<^verbatim>\<open>propose_orders\<close> appends: every key is present, the token id is
  whatever \<^verbatim>\<open>market.get('token_id')\<close> returned, the price is rounded to four digits.
\<close>

definition quote_order :: "string \<Rightarrow> market_dict \<Rightarrow> string \<Rightarrow> rat \<Rightarrow> rat \<Rightarrow> order_dict" where
  "quote_order market_id market side sz price =
     \<lparr>od_market_id = Val market_id,
      od_token_id = stored (dict_get (md_token_id market) None),
      od_side = Val side, od_type = Val ''LIMIT'',
      od_size = Val sz, od_price = Val (py_round price 4)\<rparr>"

text \<open>
  The body of the loop of \<^verbatim>\<open>propose_orders\<close> for one market id: the orders this
  iteration appends. A market that is missing or an empty dict is skipped.
\<close>

definition quote_market ::
  "market_maker \<Rightarrow> position_val list option \<Rightarrow> rat option
     \<Rightarrow> (string \<Rightarrow> market_dict option) option \<Rightarrow> string \<Rightarrow> error + order_dict list" where
  "quote_market s positions balance market_data market_id =
     (case market_data of
        None \<Rightarrow> Inl AttributeError
      | Some data \<Rightarrow>
          (case data market_id of
             None \<Rightarrow> Inr []
           | Some market \<Rightarrow>
               if \<not> market_dict_nonempty market then Inr []
               else
                 bind_err (current_size positions (Some market_id)) (\<lambda>cur.
                 bind_err (num (SPREAD_PERCENT s)) (\<lambda>sp.
                 bind_err (num (dict_get (md_midpoint market) (Some (1 / 2)))) (\<lambda>midpoint.
                 bind_err (num (dict_get (md_spread market) (Some (1 / 10)))) (\<lambda>spread.
                 let narrow = midpoint * (1 + sp) - midpoint * (1 - sp) < spread;
                     buy_price = (if narrow then midpoint - spread / 2
                                  else midpoint * (1 - sp));
                     sell_price = (if narrow then midpoint + spread / 2
                                   else midpoint * (1 + sp))
                 in
                 bind_err (num cur) (\<lambda>c.
                 bind_err (num (MAX_POSITION s)) (\<lambda>mx.
                 bind_err
                   (if c < mx
                    then bind_err (num (ORDER_SIZE s)) (\<lambda>os.
                           let buy_size = min os (mx - c)
                           in if 0 < buy_size
                              then bind_err (num balance) (\<lambda>bal.
                                     Inr (if buy_size * buy_price \<le> bal
                                          then [quote_order market_id market ''BUY''
                                                  buy_size buy_price]
                                          else []))
                              else Inr [])
                    else Inr [])
                   (\<lambda>buys.
                 bind_err
                   (if 0 < c
                    then bind_err (num (ORDER_SIZE s)) (\<lambda>os.
                           Inr [quote_order market_id market ''SELL'' (min os c) sell_price])
                    else Inr [])
                   (\<lambda>sells. Inr (buys @ sells)))))))))))"

fun propose_loop ::
  "market_maker \<Rightarrow> position_val list option \<Rightarrow> rat option
     \<Rightarrow> (string \<Rightarrow> market_dict option) option \<Rightarrow> string list \<Rightarrow> order_dict list
     \<Rightarrow> error + order_dict list" where
  "propose_loop s positions balance market_data [] orders = Inr orders"
| "propose_loop s positions balance market_data (market_id # rest) orders =
     (case quote_market s positions balance market_data market_id of
        Inl e \<Rightarrow> Inl e
      | Inr new \<Rightarrow> propose_loop s positions balance market_data rest (orders @ new))"

text \<open>
  \<^verbatim>\<open>context.get('parameters', {}).get('market_ids', [])\<close> raises AttributeError on a
  \<^verbatim>\<open>parameters\<close> that is None, and looping over a \<^verbatim>\<open>market_ids\<close> that is None
  raises TypeError.
\<close>

definition propose_orders :: "market_maker \<Rightarrow> context_dict \<Rightarrow> error + order_dict list" where
  "propose_orders s context =
     (case dict_get (cd_parameters context) (Some \<lparr>prm_market_ids = NoKey\<rparr>) of
        None \<Rightarrow> Inl AttributeError
      | Some parameters \<Rightarrow>
          (case dict_get (prm_market_ids parameters) (Some []) of
             None \<Rightarrow> Inl TypeError
           | Some target_markets \<Rightarrow>
               propose_loop s
                 (dict_get (cd_positions context) (Some []))
                 (dict_get (cd_balance context) (Some 0))
                 (dict_get (cd_market_data context) (Some (\<lambda>k. None)))
                 target_markets []))"

section \<open>Notions the properties are stated with\<close>

text \<open>
  A drain of the queue is \<^verbatim>\<open>get_pending_orders\<close> followed by
  \<^verbatim>\<open>clear_pending_orders\<close>: what the host received, and the queue it leaves.
\<close>

definition drain :: "Order list \<Rightarrow> Order list \<times> Order list" where
  "drain pending = (get_pending_orders pending, clear_pending_orders pending)"

text \<open>
  A sequence of calls into the trading interface, run in order on the pending list. A
  call that raises leaves the list as it was, and the calls after it run on that list.
\<close>

datatype trading_call =
  PlaceOrder string string string string rat "rat option"
| Buy string string rat "rat option" "string option"
| Sell string string rat "rat option" "string option"

fun do_call :: "Order list \<Rightarrow> trading_call \<Rightarrow> (error + place_result) \<times> Order list" where
  "do_call pending (PlaceOrder market_id token_id side order_type sz price) =
     place_order pending market_id token_id side order_type sz price"
| "do_call pending (Buy market_id token_id sz price order_type) =
     buy pending market_id token_id sz price order_type"
| "do_call pending (Sell market_id token_id sz price order_type) =
     sell pending market_id token_id sz price order_type"

fun run_calls :: "Order list \<Rightarrow> trading_call list \<Rightarrow> Order list" where
  "run_calls pending [] = pending"
| "run_calls pending (c # cs) = run_calls (snd (do_call pending c)) cs"

text \<open>
  The order the arguments of a call describe: none when the side or the type is not a
  member of its enumeration.
\<close>

definition described_order ::
  "string \<Rightarrow> string \<Rightarrow> string \<Rightarrow> string \<Rightarrow> rat \<Rightarrow> rat option \<Rightarrow> Order list" where
  "described_order market_id token_id side order_type sz price =
     (case (OrderSide_of side, OrderType_of order_type) of
        (Inr sd, Inr ty) \<Rightarrow>
          [\<lparr>ord_market_id = market_id, ord_token_id = token_id, ord_side = sd,
            ord_type = ty, ord_size = sz, ord_price = price\<rparr>]
      | _ \<Rightarrow> [])"

fun call_order :: "trading_call \<Rightarrow> Order list" where
  "call_order (PlaceOrder market_id token_id side order_type sz price) =
     described_order market_id token_id side order_type sz price"
| "call_order (Buy market_id token_id sz price order_type) =
     described_order market_id token_id ''BUY''
       (case order_type of None \<Rightarrow> ''LIMIT'' | Some t \<Rightarrow> t) sz price"
| "call_order (Sell market_id token_id sz price order_type) =
     described_order market_id token_id ''SELL''
       (case order_type of None \<Rightarrow> ''MARKET'' | Some t \<Rightarrow> t) sz price"




section \<open>Auxiliary facts\<close>

lemma bind_err_Inr: "bind_err m f = Inr y \<longleftrightarrow> (\<exists>x. m = Inr x \<and> f x = Inr y)"
  by (cases m) (simp_all add: bind_err_def)

lemma num_Inr: "num v = Inr x \<longleftrightarrow> v = Some x"
  by (cases v) simp_all






text \<open>Everything an accepted order has passed.\<close>

lemma risk_check_True:
  assumes "risk_check s ord ctx = Inr True"
  shows "\<exists>cur p. current_size (dict_get (cd_positions ctx) (Some []))
                   (dict_get (od_market_id ord) None) = Inr cur
           \<and> od_price ord = Val p \<and> 1 / 100 \<le> p \<and> p \<le> 99 / 100
           \<and> (od_side ord = Val ''BUY'' \<longrightarrow>
                (\<exists>c z mx. cur = Some c \<and> dict_get (od_size ord) (Some 0) = Some z
                    \<and> MAX_POSITION s = Some mx \<and> c + z \<le> mx))
           \<and> (od_side ord = Val ''SELL'' \<longrightarrow>
                (\<exists>c z. cur = Some c \<and> dict_get (od_size ord) (Some 0) = Some z \<and> z \<le> c))"
  using assms
  by (cases "od_price ord")
     (auto simp: risk_check_def Let_def bind_err_Inr num_Inr split: if_splits)

lemma place_order_snd:
  "snd (place_order pending market_id token_id side order_type sz price) =
     pending @ described_order market_id token_id side order_type sz price"
  by (simp add: place_order_def described_order_def split: sum.splits)

lemma do_call_snd: "snd (do_call pending c) = pending @ call_order c"
  by (cases c) (simp_all add: buy_def sell_def place_order_snd)

lemmas risk_eval = risk_check_def current_size_def get_position_def bind_err_def Let_def
  module_defaults_def position_dict_nonempty_def has_key_def

lemmas propose_eval = propose_orders_def quote_market_def market_dict_nonempty_def
  quote_order_def py_round_def round_half_even_def

section \<open>The pending order queue\<close>

text \<open>
  C1, as the specification states it: every order in the pending queue has passed the
  risk check. The code has no such gate. A buy at price 1.50 is appended to the queue,
  and the risk check rejects the order dict that \<^verbatim>\<open>place_order\<close> reports for it.
\<close>

theorem queue_holds_rejected_order:
  "get_pending_orders (run_calls [] [Buy ''m1'' ''t1'' 10 (Some (3 / 2)) None]) =
     [\<lparr>ord_market_id = ''m1'', ord_token_id = ''t1'', ord_side = BUY, ord_type = LIMIT,
       ord_size = 10, ord_price = Some (3 / 2)\<rparr>]
   \<and> fst (buy [] ''m1'' ''t1'' 10 (Some (3 / 2)) None) =
       Inr \<lparr>res_queued = True,
            res_order = \<lparr>od_market_id = Val ''m1'', od_token_id = NoKey,
                         od_side = Val ''BUY'', od_type = Val ''LIMIT'',
                         od_size = Val 10, od_price = Val (3 / 2)\<rparr>\<rparr>
   \<and> risk_check module_defaults
       \<lparr>od_market_id = Val ''m1'', od_token_id = NoKey,
        od_side = Val ''BUY'', od_type = Val ''LIMIT'',
        od_size = Val 10, od_price = Val (3 / 2)\<rparr>
       \<lparr>cd_mode = Val ''PAPER'', cd_positions = Val [], cd_balance = Val 100,
        cd_market_data = NoKey, cd_parameters = NoKey\<rparr> = Inr False"
  by (simp add: get_pending_orders_def buy_def place_order_def OrderSide_of_def
        OrderType_of_def risk_eval)

text \<open>
  C1, amended: the trading interface evaluates no risk check. After any sequence of
  \<^verbatim>\<open>place_order\<close>, \<^verbatim>\<open>buy\<close> and \<^verbatim>\<open>sell\<close> calls the pending queue holds
  the orders it held before followed by the order of every call whose side and type are
  members of their enumerations, in call order, whatever a risk check would say of them.
\<close>

theorem pending_orders_are_all_placed_orders:
  "get_pending_orders (run_calls pending cs) = pending @ concat (map call_order cs)"
proof (induction cs arbitrary: pending)
  case Nil
  show ?case by (simp add: get_pending_orders_def)
next
  case (Cons c cs)
  have "get_pending_orders (run_calls pending (c # cs)) =
          get_pending_orders (run_calls (snd (do_call pending c)) cs)"
    by simp
  also have "\<dots> = snd (do_call pending c) @ concat (map call_order cs)"
    by (rule Cons.IH)
  also have "\<dots> = pending @ concat (map call_order (c # cs))"
    by (simp add: do_call_snd)
  finally show ?case .
qed




text \<open>
  C9: a drain returns everything the queue holds, and a drain that follows it returns
  the empty list, whatever the queue held before.
\<close>

theorem second_drain_is_empty:
  "fst (drain pending) = pending \<and> fst (drain (snd (drain pending))) = []"
  by (simp add: drain_def get_pending_orders_def clear_pending_orders_def)

text \<open>
  C10: called without an order type, \<^verbatim>\<open>buy\<close> queues a BUY order of type LIMIT and
  \<^verbatim>\<open>sell\<close> queues a SELL order of type MARKET; in both the price is the one supplied,
  absent when none was.
\<close>

theorem buy_defaults_to_limit_sell_to_market:
  "snd (buy pending market_id token_id sz price None) =
     pending @ [\<lparr>ord_market_id = market_id, ord_token_id = token_id, ord_side = BUY,
                 ord_type = LIMIT, ord_size = sz, ord_price = price\<rparr>]
   \<and> snd (sell pending market_id token_id sz price None) =
     pending @ [\<lparr>ord_market_id = market_id, ord_token_id = token_id, ord_side = SELL,
                 ord_type = MARKET, ord_size = sz, ord_price = price\<rparr>]"
  by (simp add: buy_def sell_def place_order_def OrderSide_of_def OrderType_of_def)

section \<open>The risk check\<close>






text \<open>
  C4, as the specification states it: a BUY that costs more than the balance is
  rejected. A buy of 10 at 0.50 costs 5; with a balance of 1 it is accepted.
\<close>

theorem unaffordable_buy_is_accepted:
  "risk_check module_defaults
     \<lparr>od_market_id = Val ''m1'', od_token_id = Val ''t1'', od_side = Val ''BUY'',
      od_type = Val ''LIMIT'', od_size = Val 10, od_price = Val (1 / 2)\<rparr>
     \<lparr>cd_mode = Val ''PAPER'', cd_positions = Val [], cd_balance = Val 1,
      cd_market_data = NoKey, cd_parameters = NoKey\<rparr> = Inr True
   \<and> (1::rat) < 10 * (1 / 2)"
  by (simp add: risk_eval)

text \<open>
  C4, amended: the risk check does not read the balance. Its result for an order is the
  same whatever balance the context holds, so a BUY is never rejected for its cost.
\<close>

theorem risk_check_ignores_balance:
  "risk_check s ord (ctx\<lparr>cd_balance := b\<rparr>) = risk_check s ord ctx"
  by (simp add: risk_check_def)

text \<open>
  C7, as the specification states it: a MARKET SELL with no price that sells no more
  than the position held is accepted. Selling 5 of a held 10 at market, with no price
  key, is rejected when the position can be read, and raises AttributeError when the
  position is the SDK's dataclass or a plain dict.
\<close>

theorem market_sell_without_price_is_rejected:
  "risk_check module_defaults
     \<lparr>od_market_id = Val ''m1'', od_token_id = Val ''t1'', od_side = Val ''SELL'',
      od_type = Val ''MARKET'', od_size = Val 5, od_price = NoKey\<rparr>
     \<lparr>cd_mode = Val ''PAPER'',
      cd_positions = Val [PositionAttrDict
        \<lparr>pd_market_id = Val ''m1'', pd_token_id = Val ''t1'', pd_size = Val 10,
         pd_avg_entry_price = Val (2 / 5), pd_current_price = NoKey,
         pd_realized_pnl = NoKey, pd_unrealized_pnl = NoKey\<rparr>],
      cd_balance = Val 100, cd_market_data = NoKey, cd_parameters = NoKey\<rparr> = Inr False
   \<and> risk_check module_defaults
     \<lparr>od_market_id = Val ''m1'', od_token_id = Val ''t1'', od_side = Val ''SELL'',
      od_type = Val ''MARKET'', od_size = Val 5, od_price = NoKey\<rparr>
     \<lparr>cd_mode = Val ''PAPER'',
      cd_positions = Val [PositionObj
        \<lparr>pos_market_id = ''m1'', pos_token_id = ''t1'', pos_size = 10,
         pos_avg_entry_price = 2 / 5, pos_current_price = None,
         pos_realized_pnl = 0, pos_unrealized_pnl = 0\<rparr>],
      cd_balance = Val 100, cd_market_data = NoKey, cd_parameters = NoKey\<rparr> =
       Inl AttributeError
   \<and> risk_check module_defaults
     \<lparr>od_market_id = Val ''m1'', od_token_id = Val ''t1'', od_side = Val ''SELL'',
      od_type = Val ''MARKET'', od_size = Val 5, od_price = NoKey\<rparr>
     \<lparr>cd_mode = Val ''PAPER'',
      cd_positions = Val [PositionDict
        \<lparr>pd_market_id = Val ''m1'', pd_token_id = Val ''t1'', pd_size = Val 10,
         pd_avg_entry_price = Val (2 / 5), pd_current_price = NoKey,
         pd_realized_pnl = NoKey, pd_unrealized_pnl = NoKey\<rparr>],
      cd_balance = Val 100, cd_market_data = NoKey, cd_parameters = NoKey\<rparr> =
       Inl AttributeError"
  by (simp add: risk_eval)

text \<open>
  C7, amended: the price check applies to every order, whatever its type. An order with
  no price, a MARKET SELL included, is never accepted: a missing price key reads as 0,
  which is out of range, and a price of None cannot be compared.
\<close>

theorem risk_check_needs_a_price:
  assumes "od_price ord = NoKey \<or> od_price ord = NoneVal"
  shows "risk_check s ord ctx \<noteq> Inr True"
proof
  assume "risk_check s ord ctx = Inr True"
  from risk_check_True [OF this] obtain p where "od_price ord = Val p"
    by fast
  with assms show False by auto
qed

theorem risk_check_needs_a_price_witness:
  "(od_price \<lparr>od_market_id = Val ''m1'', od_token_id = Val ''t1'', od_side = Val ''SELL'',
      od_type = Val ''MARKET'', od_size = Val 5, od_price = NoKey\<rparr> = NoKey)
   \<and> risk_check module_defaults
     \<lparr>od_market_id = Val ''m1'', od_token_id = Val ''t1'', od_side = Val ''SELL'',
      od_type = Val ''MARKET'', od_size = Val 5, od_price = NoKey\<rparr>
     \<lparr>cd_mode = Val ''PAPER'',
      cd_positions = Val [PositionAttrDict
        \<lparr>pd_market_id = Val ''m1'', pd_token_id = Val ''t1'', pd_size = Val 10,
         pd_avg_entry_price = Val (2 / 5), pd_current_price = NoKey,
         pd_realized_pnl = NoKey, pd_unrealized_pnl = NoKey\<rparr>],
      cd_balance = Val 100, cd_market_data = NoKey, cd_parameters = NoKey\<rparr> \<noteq> Inr True"
proof -
  let ?o = "\<lparr>od_market_id = Val ''m1'', od_token_id = Val ''t1'', od_side = Val ''SELL'',
      od_type = Val ''MARKET'', od_size = Val 5, od_price = NoKey\<rparr>"
  have h: "od_price ?o = NoKey \<or> od_price ?o = NoneVal"
    by simp
  from risk_check_needs_a_price [OF h] show ?thesis
    by simp
qed

section \<open>The market maker's quotes\<close>

text \<open>
  C2, as the specification states it: with the default parameters, one target market
  with midpoint 0.50 and spread 0.10, no position and a balance of 100, the only order
  proposed is a BUY of 10 priced at about 0.49. The only order proposed is a BUY of 10
  priced at 0.45, which is 0.04 away from 0.49.
\<close>

theorem scenario_buy_is_priced_at_045:
  "propose_orders module_defaults
     \<lparr>cd_mode = Val ''PAPER'', cd_positions = Val [], cd_balance = Val 100,
      cd_market_data = Val ((\<lambda>k. None)(''m1'' \<mapsto>
        \<lparr>md_market_id = Val ''m1'', md_token_id = Val ''t1'', md_bid = Val (9 / 20),
         md_ask = Val (11 / 20), md_midpoint = Val (1 / 2), md_spread = Val (1 / 10),
         md_volume = Val 1000, md_last_price = NoKey\<rparr>)),
      cd_parameters = Val \<lparr>prm_market_ids = Val [''m1'']\<rparr>\<rparr> =
     Inr [\<lparr>od_market_id = Val ''m1'', od_token_id = Val ''t1'', od_side = Val ''BUY'',
           od_type = Val ''LIMIT'', od_size = Val 10, od_price = Val (9 / 20)\<rparr>]
   \<and> \<bar>(9 / 20 :: rat) - 49 / 100\<bar> = 4 / 100"
  by (simp add: propose_eval risk_eval)

text \<open>
  C2, amended: with the default parameters, one target market with midpoint 0.50 and
  spread 0.10, a current size of 0 and a balance of 100, \<^verbatim>\<open>propose_orders\<close> returns
  exactly one order, a BUY of size 10 at price 0.45, and no SELL. The quotes 0.49 and
  0.51 are 0.02 apart, less than the market's spread, so they are moved to the midpoint
  minus and plus half the spread.
\<close>

theorem propose_orders_scenario:
  assumes "current_size (dict_get (cd_positions ctx) (Some [])) (Some market_id)
             = Inr (Some 0)"
  shows "propose_orders
           (s\<lparr>SPREAD_PERCENT := Some (2 / 100), ORDER_SIZE := Some 10,
              MAX_POSITION := Some 100\<rparr>)
           (ctx\<lparr>cd_balance := Val 100,
                cd_market_data := Val (data(market_id \<mapsto>
                  market\<lparr>md_midpoint := Val (1 / 2), md_spread := Val (1 / 10)\<rparr>)),
                cd_parameters := Val \<lparr>prm_market_ids = Val [market_id]\<rparr>\<rparr>) =
         Inr [\<lparr>od_market_id = Val market_id,
               od_token_id = stored (dict_get (md_token_id market) None),
               od_side = Val ''BUY'', od_type = Val ''LIMIT'',
               od_size = Val 10, od_price = Val (9 / 20)\<rparr>]"
proof -
  have quote: "quote_market
        (s\<lparr>SPREAD_PERCENT := Some (2 / 100), ORDER_SIZE := Some 10,
           MAX_POSITION := Some 100\<rparr>)
        (dict_get (cd_positions ctx) (Some [])) (Some 100)
        (Some (data(market_id \<mapsto>
           market\<lparr>md_midpoint := Val (1 / 2), md_spread := Val (1 / 10)\<rparr>)))
        market_id =
      Inr [\<lparr>od_market_id = Val market_id,
            od_token_id = stored (dict_get (md_token_id market) None),
            od_side = Val ''BUY'', od_type = Val ''LIMIT'',
            od_size = Val 10, od_price = Val (9 / 20)\<rparr>]"
    using assms
    by (simp add: quote_market_def market_dict_nonempty_def has_key_def bind_err_def
          quote_order_def py_round_def round_half_even_def Let_def)
  then show ?thesis
    by (simp add: propose_orders_def)
qed

theorem propose_orders_scenario_witness:
  "current_size (Some []) (Some ''m1'') = Inr (Some 0)
   \<and> propose_orders module_defaults
       \<lparr>cd_mode = Val ''PAPER'', cd_positions = Val [], cd_balance = Val 100,
        cd_market_data = Val ((\<lambda>k. None)(''m1'' \<mapsto>
          \<lparr>md_market_id = Val ''m1'', md_token_id = Val ''t1'', md_bid = Val (9 / 20),
           md_ask = Val (11 / 20), md_midpoint = Val (1 / 2), md_spread = Val (1 / 10),
           md_volume = Val 1000, md_last_price = NoKey\<rparr>)),
        cd_parameters = Val \<lparr>prm_market_ids = Val [''m1'']\<rparr>\<rparr> =
       Inr [\<lparr>od_market_id = Val ''m1'', od_token_id = Val ''t1'', od_side = Val ''BUY'',
             od_type = Val ''LIMIT'', od_size = Val 10, od_price = Val (9 / 20)\<rparr>]"
proof -
  let ?m = "\<lparr>md_market_id = Val ''m1'', md_token_id = Val ''t1'', md_bid = Val (9 / 20),
           md_ask = Val (11 / 20), md_midpoint = Val (1 / 2), md_spread = Val (1 / 10),
           md_volume = Val 1000, md_last_price = NoKey\<rparr>"
  let ?c = "\<lparr>cd_mode = Val ''PAPER'', cd_positions = Val [], cd_balance = Val 100,
        cd_market_data = NoKey, cd_parameters = NoKey\<rparr>"
  have h: "current_size (dict_get (cd_positions ?c) (Some [])) (Some ''m1'') = Inr (Some 0)"
    by (simp add: current_size_def get_position_def bind_err_def)
  from propose_orders_scenario
    [where ctx = ?c and market_id = "''m1''" and s = module_defaults
       and data = "\<lambda>k. None" and market = ?m, OF h]
  show ?thesis
    by (simp add: module_defaults_def current_size_def get_position_def bind_err_def)
qed

section \<open>Initialisation\<close>

text \<open>
  C8: initialising twice with a config leaves the module's state as initialising once
  does, so what \<^verbatim>\<open>propose_orders\<close> and \<^verbatim>\<open>on_tick\<close> then compute for a context or
  a tick is the same.
\<close>

theorem initialize_idempotent:
  "initialize (initialize s config) config = initialize s config
   \<and> propose_orders (initialize (initialize s config) config) ctx =
       propose_orders (initialize s config) ctx
   \<and> on_tick (initialize (initialize s config) config) tick =
       on_tick (initialize s config) tick"
proof -
  have get_twice: "dict_get e (dict_get e d) = dict_get e d" for e :: "rat entry" and d
    by (cases e) simp_all
  have "initialize (initialize s config) config = initialize s config"
    by (simp add: initialize_def get_twice)
  then show ?thesis by simp
qed

end
